theory Spec2Isabelle
  imports Complex_Main "HOL-Library.AList"
begin

section \<open>JavaScript values\<close>

text \<open>
  The query engine of the feed server (the second module of \<^verbatim>\<open>src/routes.js\<close>, which the
  routes require as \<^verbatim>\<open>./mock-db\<close>) works on dynamically typed values: query-string
  parameters are strings or absent, stored records are JSON objects, and the code adds
  luxon \<^verbatim>\<open>DateTime\<close> instances to them.

  A number is \<^verbatim>\<open>NaN\<close>, an infinity or a finite number, and a finite number is its exact
  value: the rounding of doubles, their overflow to an infinity and the sign of zero are
  outside the model.
\<close>

datatype jsnum = NaN | Fin rat | Infinity | NegInfinity

text \<open>
  \<^item> \<open>DateTime n\<close> is a luxon \<^verbatim>\<open>DateTime\<close> whose \<^verbatim>\<open>valueOf()\<close> is \<open>n\<close> epoch
    milliseconds (\<open>NaN\<close> for an invalid instance);
  \<^item> \<open>Duration ms\<close> is a stored duration-like plain object (the \<^verbatim>\<open>airTime\<close> and
    \<^verbatim>\<open>startsOn\<close> fields), reduced to the number of milliseconds that
    \<^verbatim>\<open>DateTime.plus\<close> adds for it (calendar effects of daylight saving are ignored);
  \<^item> \<open>PlainObject\<close> is any other plain object, of which only the conversions are known.
\<close>

datatype jsval =
    Undefined
  | Null
  | Bool bool
  | Num jsnum
  | Str string
  | DateTime jsnum
  | Duration rat
  | PlainObject

datatype error = TypeError | InvalidArgumentError

text \<open>An object is its list of own properties in insertion order.\<close>

type_synonym obj = "(string \<times> jsval) list"

definition get_prop :: "obj \<Rightarrow> string \<Rightarrow> jsval" where
  "get_prop ob k = (case map_of ob k of None \<Rightarrow> Undefined | Some v \<Rightarrow> v)"

definition set_prop :: "obj \<Rightarrow> string \<Rightarrow> jsval \<Rightarrow> obj" where
  "set_prop ob k v = AList.update k v ob"

fun truthy :: "jsval \<Rightarrow> bool" where
  "truthy Undefined = False"
| "truthy Null = False"
| "truthy (Bool b) = b"
| "truthy (Num NaN) = False"
| "truthy (Num (Fin n)) = (n \<noteq> 0)"
| "truthy (Num Infinity) = True"
| "truthy (Num NegInfinity) = True"
| "truthy (Str s) = (s \<noteq> [])"
| "truthy (DateTime n) = True"
| "truthy (Duration ms) = True"
| "truthy PlainObject = True"

subsection \<open>Conversion of strings to numbers\<close>

text \<open>
  ECMAScript's \<^verbatim>\<open>StringToNumber\<close>, on strings of ASCII characters. White space around the
  literal is dropped, and the empty string is \<open>0\<close>. A literal is a binary, octal or
  hexadecimal integer with its prefix and no sign, or a decimal literal with an optional
  sign: \<^verbatim>\<open>Infinity\<close>, or digits with an optional fraction (\<^verbatim>\<open>3.0\<close>, \<^verbatim>\<open>5.\<close>, \<^verbatim>\<open>.5\<close>) and an
  optional exponent (\<^verbatim>\<open>1e3\<close>). Every other string is \<^verbatim>\<open>NaN\<close>.
\<close>

definition is_space :: "char \<Rightarrow> bool" where
  "is_space c = (c \<in> set [CHR '' '', CHR 0x09, CHR 0x0A, CHR 0x0B, CHR 0x0C, CHR 0x0D])"

definition trim :: "string \<Rightarrow> string" where
  "trim s = rev (dropWhile is_space (rev (dropWhile is_space s)))"

text \<open>The value of a digit in a base, if it is one.\<close>

definition digit_in :: "nat \<Rightarrow> char \<Rightarrow> nat option" where
  "digit_in base c =
     (let n = (of_char c :: nat);
          d = (if 48 \<le> n \<and> n \<le> 57 then Some (n - 48)
               else if 97 \<le> n \<and> n \<le> 102 then Some (n - 87)
               else if 65 \<le> n \<and> n \<le> 70 then Some (n - 55)
               else None)
      in case d of None \<Rightarrow> None | Some v \<Rightarrow> if v < base then Some v else None)"

definition is_digit :: "char \<Rightarrow> bool" where
  "is_digit c = (digit_in 10 c \<noteq> None)"

definition digits_value :: "nat \<Rightarrow> string \<Rightarrow> nat" where
  "digits_value base ds = foldl (\<lambda>acc c. base * acc + (case digit_in base c of None \<Rightarrow> 0 | Some v \<Rightarrow> v)) 0 ds"

text \<open>A run of one or more digits of the base, and nothing else.\<close>

definition integer_literal :: "nat \<Rightarrow> string \<Rightarrow> nat option" where
  "integer_literal base ds =
     (if ds \<noteq> [] \<and> list_all (\<lambda>c. digit_in base c \<noteq> None) ds then Some (digits_value base ds) else None)"

text \<open>\<^verbatim>\<open>0b\<close>, \<^verbatim>\<open>0o\<close> and \<^verbatim>\<open>0x\<close> literals, the letter in either case.\<close>

definition non_decimal_literal :: "string \<Rightarrow> nat option" where
  "non_decimal_literal s =
     (case s of
        z # p # ds \<Rightarrow>
          if z \<noteq> CHR ''0'' then None
          else if p = CHR ''b'' \<or> p = CHR ''B'' then integer_literal 2 ds
          else if p = CHR ''o'' \<or> p = CHR ''O'' then integer_literal 8 ds
          else if p = CHR ''x'' \<or> p = CHR ''X'' then integer_literal 16 ds
          else None
      | _ \<Rightarrow> None)"

text \<open>The exponent part after its \<^verbatim>\<open>e\<close>: digits with an optional sign.\<close>

definition signed_integer :: "string \<Rightarrow> int option" where
  "signed_integer s =
     (case s of
        [] \<Rightarrow> None
      | c # cs \<Rightarrow>
          if c = CHR ''-'' then map_option (\<lambda>n. - int n) (integer_literal 10 cs)
          else if c = CHR ''+'' then map_option int (integer_literal 10 cs)
          else map_option int (integer_literal 10 s))"

definition pow10 :: "int \<Rightarrow> rat" where
  "pow10 k = (if 0 \<le> k then 10 ^ nat k else 1 / 10 ^ nat (- k))"

definition unsigned_decimal_literal :: "string \<Rightarrow> jsnum" where
  "unsigned_decimal_literal s =
     (if s = ''Infinity'' then Infinity
      else
        let ip = takeWhile is_digit s;
            r1 = dropWhile is_digit s;
            dot = (r1 \<noteq> [] \<and> hd r1 = CHR ''.'');
            fp = (if dot then takeWhile is_digit (tl r1) else []);
            r2 = (if dot then dropWhile is_digit (tl r1) else r1);
            ex = (case r2 of
                    [] \<Rightarrow> Some 0
                  | c # cs \<Rightarrow> if c = CHR ''e'' \<or> c = CHR ''E'' then signed_integer cs else None)
        in if ip = [] \<and> fp = [] then NaN
           else case ex of
                  None \<Rightarrow> NaN
                | Some k \<Rightarrow>
                    Fin ((of_nat (digits_value 10 ip) + of_nat (digits_value 10 fp) / 10 ^ length fp)
                         * pow10 k))"

fun num_neg :: "jsnum \<Rightarrow> jsnum" where
  "num_neg NaN = NaN"
| "num_neg (Fin a) = Fin (- a)"
| "num_neg Infinity = NegInfinity"
| "num_neg NegInfinity = Infinity"

definition StringToNumber :: "string \<Rightarrow> jsnum" where
  "StringToNumber s =
     (case trim s of
        [] \<Rightarrow> Fin 0
      | c # cs \<Rightarrow>
          (case non_decimal_literal (c # cs) of
             Some n \<Rightarrow> Fin (of_nat n)
           | None \<Rightarrow>
               if c = CHR ''-'' then num_neg (unsigned_decimal_literal cs)
               else if c = CHR ''+'' then unsigned_decimal_literal cs
               else unsigned_decimal_literal (c # cs)))"

subsection \<open>Conversions and operators\<close>

text \<open>
  \<^verbatim>\<open>ToPrimitive\<close>: a \<^verbatim>\<open>DateTime\<close> converts through \<^verbatim>\<open>valueOf\<close>, a plain object through
  \<^verbatim>\<open>toString\<close>.
\<close>

fun ToPrimitive :: "jsval \<Rightarrow> jsval" where
  "ToPrimitive (DateTime n) = Num n"
| "ToPrimitive (Duration ms) = Str ''[object Object]''"
| "ToPrimitive PlainObject = Str ''[object Object]''"
| "ToPrimitive v = v"

text \<open>\<^verbatim>\<open>Number(v)\<close>, which is also what the arithmetic operators apply to their operands.\<close>

fun ToNumber :: "jsval \<Rightarrow> jsnum" where
  "ToNumber Undefined = NaN"
| "ToNumber Null = Fin 0"
| "ToNumber (Bool b) = Fin (if b then 1 else 0)"
| "ToNumber (Num n) = n"
| "ToNumber (Str s) = StringToNumber s"
| "ToNumber (DateTime n) = n"
| "ToNumber (Duration ms) = NaN"
| "ToNumber PlainObject = NaN"

fun num_add :: "jsnum \<Rightarrow> jsnum \<Rightarrow> jsnum" where
  "num_add NaN b = NaN"
| "num_add a NaN = NaN"
| "num_add (Fin a) (Fin b) = Fin (a + b)"
| "num_add Infinity NegInfinity = NaN"
| "num_add NegInfinity Infinity = NaN"
| "num_add Infinity b = Infinity"
| "num_add NegInfinity b = NegInfinity"
| "num_add (Fin a) b = b"

definition num_sub :: "jsnum \<Rightarrow> jsnum \<Rightarrow> jsnum" where
  "num_sub a b = num_add a (num_neg b)"

text \<open>The product with an infinity: \<^verbatim>\<open>NaN\<close> for zero, otherwise the infinity of the product's sign.\<close>

definition signed_infinity :: "bool \<Rightarrow> jsnum" where
  "signed_infinity positive = (if positive then Infinity else NegInfinity)"

fun num_mul :: "jsnum \<Rightarrow> jsnum \<Rightarrow> jsnum" where
  "num_mul NaN b = NaN"
| "num_mul a NaN = NaN"
| "num_mul (Fin a) (Fin b) = Fin (a * b)"
| "num_mul (Fin a) Infinity = (if a = 0 then NaN else signed_infinity (0 < a))"
| "num_mul (Fin a) NegInfinity = (if a = 0 then NaN else signed_infinity (a < 0))"
| "num_mul Infinity (Fin b) = (if b = 0 then NaN else signed_infinity (0 < b))"
| "num_mul NegInfinity (Fin b) = (if b = 0 then NaN else signed_infinity (b < 0))"
| "num_mul Infinity Infinity = Infinity"
| "num_mul NegInfinity NegInfinity = Infinity"
| "num_mul Infinity NegInfinity = NegInfinity"
| "num_mul NegInfinity Infinity = NegInfinity"

text \<open>\<^verbatim>\<open>a - b\<close> and \<^verbatim>\<open>a * b\<close>.\<close>

definition js_sub :: "jsval \<Rightarrow> jsval \<Rightarrow> jsval" where
  "js_sub a b = Num (num_sub (ToNumber a) (ToNumber b))"

definition js_mul :: "jsval \<Rightarrow> jsval \<Rightarrow> jsval" where
  "js_mul a b = Num (num_mul (ToNumber a) (ToNumber b))"

text \<open>Strings compare by code unit, lexicographically.\<close>

fun str_less :: "string \<Rightarrow> string \<Rightarrow> bool" where
  "str_less [] [] = False"
| "str_less [] (y # ys) = True"
| "str_less (x # xs) [] = False"
| "str_less (x # xs) (y # ys) =
     ((of_char x :: nat) < of_char y \<or> (x = y \<and> str_less xs ys))"

fun num_less :: "jsnum \<Rightarrow> jsnum \<Rightarrow> bool option" where
  "num_less NaN b = None"
| "num_less a NaN = None"
| "num_less (Fin a) (Fin b) = Some (a < b)"
| "num_less a NegInfinity = Some False"
| "num_less NegInfinity b = Some True"
| "num_less Infinity b = Some False"
| "num_less (Fin a) Infinity = Some True"

text \<open>
  The abstract relational comparison \<^verbatim>\<open>a < b\<close>: two strings compare as strings, anything
  else as numbers, and the result is undefined (\<open>None\<close>) when a side is \<open>NaN\<close>.
\<close>

definition js_compare :: "jsval \<Rightarrow> jsval \<Rightarrow> bool option" where
  "js_compare a b =
     (case (ToPrimitive a, ToPrimitive b) of
        (Str s, Str t) \<Rightarrow> Some (str_less s t)
      | (x, y) \<Rightarrow> num_less (ToNumber x) (ToNumber y))"

definition js_lt :: "jsval \<Rightarrow> jsval \<Rightarrow> bool" where
  "js_lt a b = (js_compare a b = Some True)"

definition js_gt :: "jsval \<Rightarrow> jsval \<Rightarrow> bool" where
  "js_gt a b = (js_compare b a = Some True)"

definition js_le :: "jsval \<Rightarrow> jsval \<Rightarrow> bool" where
  "js_le a b = (js_compare b a = Some False)"

definition js_ge :: "jsval \<Rightarrow> jsval \<Rightarrow> bool" where
  "js_ge a b = (js_compare a b = Some False)"

subsection \<open>The lodash helpers of the pagination code\<close>

text \<open>\<^verbatim>\<open>_.defaultTo(v, d)\<close> returns \<open>d\<close> when \<open>v\<close> is \<^verbatim>\<open>undefined\<close>, \<^verbatim>\<open>null\<close> or \<^verbatim>\<open>NaN\<close>.\<close>

definition defaultTo :: "jsval \<Rightarrow> jsval \<Rightarrow> jsval" where
  "defaultTo v d = (if v = Undefined \<or> v = Null \<or> v = Num NaN then d else v)"

text \<open>
  \<^verbatim>\<open>_.toInteger\<close>: \<^verbatim>\<open>NaN\<close> becomes \<open>0\<close>, an infinity the largest finite double with its
  sign, and a fraction is cut off towards zero.
\<close>

definition MAX_INTEGER :: int where
  "MAX_INTEGER = 2 ^ 1024 - 2 ^ 971"

definition toInteger :: "jsval \<Rightarrow> int" where
  "toInteger v =
     (case ToNumber v of
        NaN \<Rightarrow> 0
      | Fin r \<Rightarrow> (if 0 \<le> r then \<lfloor>r\<rfloor> else \<lceil>r\<rceil>)
      | Infinity \<Rightarrow> MAX_INTEGER
      | NegInfinity \<Rightarrow> - MAX_INTEGER)"

text \<open>
  \<^verbatim>\<open>drop(n)\<close> and \<^verbatim>\<open>take(n)\<close>: a missing count is \<open>1\<close>, any other is converted with
  \<^verbatim>\<open>toInteger\<close> and a negative one counts as \<open>0\<close>.
\<close>

definition count_arg :: "jsval \<Rightarrow> nat" where
  "count_arg n = (if n = Undefined then 1 else nat (max (toInteger n) 0))"

definition drop_js :: "jsval \<Rightarrow> 'a list \<Rightarrow> 'a list" where
  "drop_js n xs = drop (count_arg n) xs"

definition take_js :: "jsval \<Rightarrow> 'a list \<Rightarrow> 'a list" where
  "take_js n xs = take (count_arg n) xs"

section \<open>The catalog store and the module scope\<close>

text \<open>
  \<^verbatim>\<open>db\<close> holds the two collections read by the queries. The chain methods hand out
  references to the stored objects, so a stage of a query is a list of references (indices
  into the collection) and the callbacks that assign to a record change the collection.
\<close>

record db =
  media :: "obj list"
  programs :: "obj list"

text \<open>
  The two constants of the module scope:
  \<^verbatim>\<open>const now = DateTime.local(); const startOfWeek = now.startOf("week");\<close>
\<close>

record env =
  now :: rat
  startOfWeek :: rat

text \<open>
  \<^verbatim>\<open>startOf("week")\<close> for a server whose local zone is UTC: the Monday 00:00 at or before
  the instant (the epoch was a Thursday).
\<close>

definition startOf_week :: "int \<Rightarrow> int" where
  "startOf_week t = t - (t + 3 * 86400000) mod (7 * 86400000)"

text \<open>The module scope is evaluated once, when the module is first required.\<close>

definition module_scope :: "int \<Rightarrow> env" where
  "module_scope clock = \<lparr>now = of_int clock, startOfWeek = of_int (startOf_week clock)\<rparr>"

text \<open>
  A \<^verbatim>\<open>map\<close> whose callback assigns to the record it is given and returns it: the records
  are visited in order, and an exception leaves the earlier assignments in place. (lowdb's
  chain wraps the store object and not an array, so lodash evaluates it eagerly, one method
  after the other: such a \<^verbatim>\<open>map\<close> visits every record of its stage before a later
  \<^verbatim>\<open>drop\<close> or \<^verbatim>\<open>take\<close> is applied.)
\<close>

fun map_mutating :: "(obj \<Rightarrow> error + obj) \<Rightarrow> nat list \<Rightarrow> obj list \<Rightarrow> error option \<times> obj list" where
  "map_mutating f [] h = (None, h)"
| "map_mutating f (i # refs) h =
     (case f (h ! i) of
        Inl e \<Rightarrow> (Some e, h)
      | Inr ob \<Rightarrow> map_mutating f refs (h[i := ob]))"

section \<open>The filter stage\<close>

text \<open>
  The reducer of the \<^verbatim>\<open>/media\<close> route builds the \<^verbatim>\<open>filters\<close> object from the query
  string. Two functions that the reducer calls are parameters here: lodash's
  \<^verbatim>\<open>_.camelCase\<close>, and JavaScript's \<^verbatim>\<open>Number\<close>, the number that it reads from a value of
  the query string.
\<close>

definition castedValue :: "(jsval \<Rightarrow> jsnum) \<Rightarrow> string \<Rightarrow> jsval \<Rightarrow> jsval" where
  "castedValue Number key v =
     (let c0 = v;
          c1 = (if v = Str ''true'' then Bool True else c0);
          c2 = (if key \<in> set [''bySeasonNumber'', ''byEpisodeNumber''] then Num (Number v) else c1)
      in c2)"

definition filters_of_query :: "(string \<Rightarrow> string) \<Rightarrow> (jsval \<Rightarrow> jsnum) \<Rightarrow> obj \<Rightarrow> obj" where
  "filters_of_query camelCase Number query =
     foldl (\<lambda>result (key, v).
              if take 2 key = ''by''
              then set_prop result (camelCase (drop 2 key)) (castedValue Number key v)
              else result)
       [] query"

text \<open>
  \<^verbatim>\<open>filter(filters)\<close> with an object is \<^verbatim>\<open>_.matches(filters)\<close>: every property of the source
  must be a property of the record with the same value (\<^verbatim>\<open>NaN\<close> matches \<^verbatim>\<open>NaN\<close>).
\<close>

definition matches :: "obj \<Rightarrow> obj \<Rightarrow> bool" where
  "matches source ob = list_all (\<lambda>(k, v). map_of ob k = Some v) source"

definition filter_refs :: "obj list \<Rightarrow> obj \<Rightarrow> nat list \<Rightarrow> nat list" where
  "filter_refs h source refs = filter (\<lambda>i. matches source (h ! i)) refs"

section \<open>The search stage\<close>

text \<open>
  The mixin \<^verbatim>\<open>fuse\<close>. The fuzzy matcher of fuse.js over the keys \<^verbatim>\<open>id\<close>, \<^verbatim>\<open>title\<close> and
  \<^verbatim>\<open>summary\<close> is a parameter: \<open>search rs s\<close> gives the positions in \<open>rs\<close> of the records
  it returns, best match first.
\<close>

definition fuse :: "(obj list \<Rightarrow> jsval \<Rightarrow> nat list) \<Rightarrow> obj list \<Rightarrow> nat list \<Rightarrow> jsval \<Rightarrow> nat list" where
  "fuse search h refs searchString =
     (if truthy searchString
      then map (\<lambda>p. refs ! p) (filter (\<lambda>p. p < length refs) (search (map (\<lambda>i. h ! i) refs) searchString))
      else refs)"

section \<open>The sort stage\<close>

text \<open>lodash's \<^verbatim>\<open>compareAscending\<close> (there are no symbols among the values).\<close>

definition reflexive :: "jsval \<Rightarrow> bool" where
  "reflexive v = (v \<noteq> Num NaN)"

definition compareAscending :: "jsval \<Rightarrow> jsval \<Rightarrow> int" where
  "compareAscending v other =
     (if v \<noteq> other \<or> \<not> reflexive v then
        (if (other \<noteq> Null \<and> js_gt v other)
            \<or> (v = Null \<and> other \<noteq> Undefined \<and> reflexive other)
            \<or> (v = Undefined \<and> reflexive other)
            \<or> \<not> reflexive v
         then 1
         else if (v \<noteq> Null \<and> js_lt v other)
            \<or> (other = Null \<and> v \<noteq> Undefined \<and> reflexive v)
            \<or> (other = Undefined \<and> reflexive v)
            \<or> \<not> reflexive other
         then - 1
         else 0)
      else 0)"

text \<open>
  \<^verbatim>\<open>compareMultiple\<close> with the empty \<^verbatim>\<open>orders\<close> that \<^verbatim>\<open>sortBy\<close> passes: the first
  criterion that differs decides, and the position in the input breaks a tie.
\<close>

fun compareCriteria :: "jsval list \<Rightarrow> jsval list \<Rightarrow> int" where
  "compareCriteria (a # as) (b # bs) =
     (let r = compareAscending a b in if r \<noteq> 0 then r else compareCriteria as bs)"
| "compareCriteria _ _ = 0"

definition compareMultiple :: "jsval list \<times> nat \<times> nat \<Rightarrow> jsval list \<times> nat \<times> nat \<Rightarrow> int" where
  "compareMultiple a b =
     (let r = compareCriteria (fst a) (fst b)
      in if r \<noteq> 0 then r else int (fst (snd a)) - int (fst (snd b)))"

text \<open>
  \<^verbatim>\<open>Array.prototype.sort\<close> with a comparator, as an insertion sort. \<^verbatim>\<open>compareMultiple\<close>
  never ties two entries, so with a consistent comparator every sorting algorithm returns
  this array.
\<close>

fun insert_by :: "('a \<Rightarrow> 'a \<Rightarrow> int) \<Rightarrow> 'a \<Rightarrow> 'a list \<Rightarrow> 'a list" where
  "insert_by c x [] = [x]"
| "insert_by c x (y # ys) = (if c x y \<le> 0 then x # y # ys else y # insert_by c x ys)"

fun Array_sort :: "('a \<Rightarrow> 'a \<Rightarrow> int) \<Rightarrow> 'a list \<Rightarrow> 'a list" where
  "Array_sort c [] = []"
| "Array_sort c (x # xs) = insert_by c x (Array_sort c xs)"

text \<open>
  \<^verbatim>\<open>sortBy(sorts)\<close>: each key is used as a property name, whatever it contains; with no key
  the criterion is the record itself, a plain object. (Keys with path syntax, which lodash
  would follow into nested values, are read as plain names: the values here do not nest.)
\<close>

definition criteria :: "string list \<Rightarrow> obj \<Rightarrow> jsval list" where
  "criteria keys ob = (if keys = [] then [PlainObject] else map (\<lambda>k. get_prop ob k) keys)"

definition sortBy :: "obj list \<Rightarrow> string list \<Rightarrow> nat list \<Rightarrow> nat list" where
  "sortBy h keys refs =
     map (\<lambda>e. snd (snd e))
       (Array_sort compareMultiple
          (map (\<lambda>(idx, i). (criteria keys (h ! i), idx, i)) (enumerate 0 refs)))"

section \<open>Media queries\<close>

record media_result =
  nextPage :: jsval
  items :: "obj list"

text \<open>
  \<^verbatim>\<open>startOfWeek.plus(d)\<close> of luxon, for a stored value \<open>d\<close>: a number is a count of
  milliseconds, and a value that is neither a number nor an object is rejected.
\<close>

fun plus_duration :: "rat \<Rightarrow> jsval \<Rightarrow> error + jsnum" where
  "plus_duration t (Num n) = Inr (num_add (Fin t) n)"
| "plus_duration t (Duration ms) = Inr (Fin (t + ms))"
| "plus_duration t d = Inl InvalidArgumentError"

text \<open>The callback of \<^verbatim>\<open>getMediaItems\<close>' \<^verbatim>\<open>map\<close>.\<close>

definition set_startsOnTimestamp :: "env \<Rightarrow> obj \<Rightarrow> error + obj" where
  "set_startsOnTimestamp e item =
     (if truthy (get_prop item ''startsOn'')
      then (case plus_duration (startOfWeek e) (get_prop item ''startsOn'') of
              Inl err \<Rightarrow> Inl err
            | Inr t \<Rightarrow> Inr (set_prop item ''startsOnTimestamp'' (DateTime t)))
      else Inr item)"

definition baseQuery ::
  "(obj list \<Rightarrow> jsval \<Rightarrow> nat list) \<Rightarrow> obj list \<Rightarrow> obj \<Rightarrow> string list \<Rightarrow> jsval \<Rightarrow> nat list" where
  "baseQuery search h filters sorts q =
     sortBy h sorts (fuse search h (filter_refs h filters [0..<length h]) q)"

definition getMediaItems ::
  "(obj list \<Rightarrow> jsval \<Rightarrow> nat list) \<Rightarrow> env \<Rightarrow> db \<Rightarrow> obj \<Rightarrow> string list \<Rightarrow> jsval \<Rightarrow> jsval \<Rightarrow> jsval \<Rightarrow> jsval
     \<Rightarrow> (error + media_result) \<times> db" where
  "getMediaItems search e d filters sorts maxPage perPage page q =
     (let refs = baseQuery search (media d) filters sorts q;
          total = Num (Fin (of_nat (length refs)));
          currentPage = defaultTo page (Num (Fin 1));
          currentPerPage = defaultTo perPage (Num (Fin 20));
          currentMaxPage = defaultTo maxPage (Num (Fin 100))
      in if js_gt currentPage currentMaxPage
         then (Inr \<lparr>nextPage = Undefined, items = []\<rparr>, d)
         else
           let next = (if js_gt currentMaxPage currentPage \<and> js_gt total (js_mul currentPage currentPerPage)
                       then Num (num_add (ToNumber currentPage) (Fin 1))
                       else Undefined)
           in case map_mutating (set_startsOnTimestamp e) refs (media d) of
                (Some err, h') \<Rightarrow> (Inl err, d\<lparr>media := h'\<rparr>)
              | (None, h') \<Rightarrow>
                  (Inr \<lparr>nextPage = next,
                        items = map (\<lambda>i. h' ! i)
                          (take_js currentPerPage
                             (drop_js (js_mul (js_sub currentPage (Num (Fin 1))) currentPerPage) refs))\<rparr>,
                   d\<lparr>media := h'\<rparr>))"

section \<open>EPG queries\<close>

text \<open>
  \<^verbatim>\<open>t.plus({ seconds: s })\<close>: a receiver that is no \<^verbatim>\<open>DateTime\<close> has no method
  \<^verbatim>\<open>plus\<close>; luxon skips a missing unit and rejects one that is no number.
\<close>

fun plus_seconds :: "jsval \<Rightarrow> jsval \<Rightarrow> error + jsnum" where
  "plus_seconds (DateTime NaN) s = Inr NaN"
| "plus_seconds (DateTime t) Undefined = Inr t"
| "plus_seconds (DateTime t) Null = Inr t"
| "plus_seconds (DateTime t) (Bool b) = Inl InvalidArgumentError"
| "plus_seconds (DateTime t) (Str []) = Inl InvalidArgumentError"
| "plus_seconds (DateTime t) s =
     (case ToNumber s of
        NaN \<Rightarrow> Inl InvalidArgumentError
      | n \<Rightarrow> Inr (num_add t (num_mul (Fin 1000) n)))"
| "plus_seconds receiver s = Inl TypeError"

text \<open>The callback of the \<^verbatim>\<open>map\<close> that opens \<^verbatim>\<open>epgUtils\<close>.\<close>

definition set_isLive :: "env \<Rightarrow> obj \<Rightarrow> error + obj" where
  "set_isLive e program =
     (if js_le (get_prop program ''airTimestamp'') (DateTime (Fin (now e)))
      then (case plus_seconds (get_prop program ''airTimestamp'') (get_prop program ''durationInSeconds'') of
              Inl err \<Rightarrow> Inl err
            | Inr t \<Rightarrow>
                Inr (if js_le (DateTime (Fin (now e))) (DateTime t)
                     then set_prop program ''isLive'' (Bool True)
                     else program))
      else Inr program)"

text \<open>A \<^verbatim>\<open>filter\<close> whose predicate can throw.\<close>

fun filter_err :: "(nat \<Rightarrow> error + bool) \<Rightarrow> nat list \<Rightarrow> error + nat list" where
  "filter_err p [] = Inr []"
| "filter_err p (i # refs) =
     (case p i of
        Inl err \<Rightarrow> Inl err
      | Inr b \<Rightarrow> (case filter_err p refs of
                   Inl err \<Rightarrow> Inl err
                 | Inr r \<Rightarrow> Inr (if b then i # r else r)))"

text \<open>The predicate of the \<^verbatim>\<open>justEnded\<close> branch.\<close>

definition has_ended :: "env \<Rightarrow> obj \<Rightarrow> error + bool" where
  "has_ended e program =
     (if js_le (get_prop program ''airTimestamp'') (DateTime (Fin (now e)))
      then (case plus_seconds (get_prop program ''airTimestamp'') (get_prop program ''durationInSeconds'') of
              Inl err \<Rightarrow> Inl err
            | Inr t \<Rightarrow> Inr (js_ge (DateTime (Fin (now e))) (DateTime t)))
      else Inr False)"

text \<open>
  The predicate of the \<^verbatim>\<open>forDay\<close> branch; luxon's \<^verbatim>\<open>ordinal\<close> (the day of the year) is a
  parameter.
\<close>

definition on_day :: "(rat \<Rightarrow> int) \<Rightarrow> jsval \<Rightarrow> obj \<Rightarrow> error + bool" where
  "on_day ordinal day program =
     (case get_prop program ''airTimestamp'' of
        Undefined \<Rightarrow> Inl TypeError
      | Null \<Rightarrow> Inl TypeError
      | DateTime (Fin t) \<Rightarrow> Inr (case ToNumber day of Fin m \<Rightarrow> ordinal t = ordinal m | _ \<Rightarrow> False)
      | _ \<Rightarrow> Inr False)"

definition epgUtils ::
  "(rat \<Rightarrow> int) \<Rightarrow> env \<Rightarrow> nat list \<Rightarrow> obj list \<Rightarrow> obj \<Rightarrow> (error + nat list) \<times> obj list" where
  "epgUtils ordinal e progs h epgFilters =
     (case map_mutating (set_isLive e) progs h of
        (Some err, h') \<Rightarrow> (Inl err, h')
      | (None, h') \<Rightarrow>
          (if truthy (get_prop epgFilters ''now'')
           then Inr (filter (\<lambda>i. truthy (get_prop (h' ! i) ''isLive'')) progs)
           else if truthy (get_prop epgFilters ''upNext'')
           then Inr (filter (\<lambda>i. js_le (DateTime (Fin (now e))) (get_prop (h' ! i) ''airTimestamp'')) progs)
           else if truthy (get_prop epgFilters ''justEnded'')
           then (case filter_err (\<lambda>i. has_ended e (h' ! i)) progs of
                   Inl err \<Rightarrow> Inl err
                 | Inr r \<Rightarrow> Inr (rev r))
           else if truthy (get_prop epgFilters ''forDay'')
           then filter_err (\<lambda>i. on_day ordinal (get_prop epgFilters ''forDay'') (h' ! i)) progs
           else Inr progs,
           h'))"

text \<open>\<^verbatim>\<open>maxResults\<close> is \<open>100\<close>.\<close>

definition calculateLimit :: "jsval \<Rightarrow> jsval" where
  "calculateLimit limit =
     (if truthy limit \<and> js_lt (Num (ToNumber limit)) (Num (Fin 100))
      then Num (ToNumber limit)
      else Num (Fin 100))"

text \<open>The callback of \<^verbatim>\<open>getPrograms\<close>' \<^verbatim>\<open>map\<close>.\<close>

definition set_airTimestamp :: "env \<Rightarrow> obj \<Rightarrow> error + obj" where
  "set_airTimestamp e program =
     (case plus_duration (startOfWeek e) (get_prop program ''airTime'') of
        Inl err \<Rightarrow> Inl err
      | Inr t \<Rightarrow> Inr (set_prop program ''airTimestamp'' (DateTime t)))"

text \<open>\<^verbatim>\<open>getPrograms\<close> returns the \<^verbatim>\<open>items\<close> of its result object, and the store it leaves.\<close>

definition getPrograms ::
  "(rat \<Rightarrow> int) \<Rightarrow> env \<Rightarrow> db \<Rightarrow> obj \<Rightarrow> obj \<Rightarrow> jsval \<Rightarrow> (error + obj list) \<times> db" where
  "getPrograms ordinal e d filters epgFilters limit =
     (let refs = filter_refs (programs d) filters [0..<length (programs d)]
      in case map_mutating (set_airTimestamp e) refs (programs d) of
           (Some err, h1) \<Rightarrow> (Inl err, d\<lparr>programs := h1\<rparr>)
         | (None, h1) \<Rightarrow>
             (case epgUtils ordinal e refs h1 epgFilters of
                (Inl err, h2) \<Rightarrow> (Inl err, d\<lparr>programs := h2\<rparr>)
              | (Inr sel, h2) \<Rightarrow>
                  (Inr (map (\<lambda>i. h2 ! i) (take_js (calculateLimit limit) sel)), d\<lparr>programs := h2\<rparr>)))"

text \<open>
  A call of \<^verbatim>\<open>getPrograms\<close> made at the instant \<open>clock\<close> by a process that loaded the
  module at the instant \<open>loaded\<close>: the body reads \<^verbatim>\<open>now\<close> and \<^verbatim>\<open>startOfWeek\<close> from the
  module scope and does not read the clock.
\<close>

definition getPrograms_at ::
  "(rat \<Rightarrow> int) \<Rightarrow> int \<Rightarrow> int \<Rightarrow> db \<Rightarrow> obj \<Rightarrow> obj \<Rightarrow> jsval \<Rightarrow> (error + obj list) \<times> db" where
  "getPrograms_at ordinal loaded clock d filters epgFilters limit =
     getPrograms ordinal (module_scope loaded) d filters epgFilters limit"

section \<open>Notions used to state the properties\<close>

text \<open>
  The slice of a sequence from index \<open>a\<close> inclusive to index \<open>b\<close> exclusive: the elements
  at the positions \<open>i\<close> with \<open>a \<le> i < b\<close>, in order.
\<close>

definition slice :: "'a list \<Rightarrow> int \<Rightarrow> int \<Rightarrow> 'a list" where
  "slice xs a b = map (\<lambda>i. xs ! i) (filter (\<lambda>i. a \<le> int i \<and> int i < b) [0..<length xs])"


section \<open>Example stores and requests\<close>

definition five_media :: db where
  "five_media =
     \<lparr>media = [[(''id'', Str ''m0'')], [(''id'', Str ''m1'')], [(''id'', Str ''m2'')],
               [(''id'', Str ''m3'')], [(''id'', Str ''m4'')]],
      programs = []\<rparr>"

definition two_episodes :: db where
  "two_episodes =
     \<lparr>media = [[(''id'', Str ''e1''), (''episodeNumber'', Num (Fin 1))],
               [(''id'', Str ''e2''), (''episodeNumber'', Num (Fin 2))]],
      programs = []\<rparr>"

definition many_media :: db where
  "many_media = \<lparr>media = replicate 101 [(''type'', Str ''episode'')], programs = []\<rparr>"

definition coming_soon :: db where
  "coming_soon =
     \<lparr>media = [[(''id'', Str ''s1''), (''type'', Str ''series''), (''startsOn'', Duration 86400000)],
               [(''id'', Str ''e1''), (''type'', Str ''episode'')]],
      programs = []\<rparr>"

text \<open>A program that airs three days into the week, for one minute.\<close>

definition one_program :: db where
  "one_program =
     \<lparr>media = [],
      programs = [[(''id'', Str ''p1''), (''airTime'', Duration 259200000),
                   (''durationInSeconds'', Num (Fin 60))]]\<rparr>"



definition three_programs :: "obj list" where
  "three_programs =
     [[(''id'', Str ''p1''), (''airTimestamp'', DateTime (Fin 0)), (''durationInSeconds'', Num (Fin 1))],
      [(''id'', Str ''p2''), (''airTimestamp'', DateTime (Fin 1000)), (''durationInSeconds'', Num (Fin 1))],
      [(''id'', Str ''p3''), (''airTimestamp'', DateTime (Fin 2000)), (''durationInSeconds'', Num (Fin 1))]]"




section \<open>Auxiliary facts\<close>

lemmas js_defs = get_prop_def set_prop_def js_sub_def js_mul_def js_compare_def js_lt_def js_gt_def
  js_le_def js_ge_def defaultTo_def toInteger_def count_arg_def drop_js_def take_js_def
  StringToNumber_def trim_def is_space_def is_digit_def digit_in_def digits_value_def
  integer_literal_def non_decimal_literal_def signed_integer_def pow10_def
  unsigned_decimal_literal_def num_sub_def

lemmas media_defs = getMediaItems_def baseQuery_def filter_refs_def matches_def fuse_def sortBy_def
  criteria_def compareMultiple_def compareAscending_def reflexive_def set_startsOnTimestamp_def
  filters_of_query_def castedValue_def enumerate_eq_zip upt_rec Let_def

lemmas epg_defs = getPrograms_at_def getPrograms_def epgUtils_def set_isLive_def set_airTimestamp_def
  has_ended_def on_day_def calculateLimit_def module_scope_def startOf_week_def filter_refs_def
  matches_def upt_rec Let_def

subsection \<open>Properties and objects\<close>

lemma get_set_prop: "get_prop (set_prop ob k v) k' = (if k' = k then v else get_prop ob k')"
  by (simp add: get_prop_def set_prop_def update_conv')

lemma map_of_set_prop: "k' \<noteq> k \<Longrightarrow> map_of (set_prop ob k v) k' = map_of ob k'"
  by (simp add: set_prop_def update_conv')

lemma get_prop_cong: "map_of a k = map_of b k \<Longrightarrow> get_prop a k = get_prop b k"
  by (simp add: get_prop_def)

lemma js_le_DateTime: "js_le (DateTime (Fin a)) (DateTime (Fin b)) = (a \<le> b)"
  by (auto simp: js_le_def js_compare_def)

lemma js_ge_DateTime: "js_ge (DateTime (Fin a)) (DateTime (Fin b)) = (b \<le> a)"
  by (auto simp: js_ge_def js_compare_def)

subsection \<open>Callbacks that assign to the stored records\<close>

lemma map_mutating_length: "length (snd (map_mutating f refs h)) = length h"
  by (induction refs arbitrary: h) (auto split: sum.splits)

text \<open>A property that the callback does not write is the same after the pass, at every index.\<close>

lemma map_mutating_frame:
  assumes "\<And>ob ob'. f ob = Inr ob' \<Longrightarrow> map_of ob' k = map_of ob k"
  shows "map_of (snd (map_mutating f refs h) ! j) k = map_of (h ! j) k"
proof (induction refs arbitrary: h)
  case Nil
  show ?case by simp
next
  case (Cons i refs)
  show ?case
  proof (cases "f (h ! i)")
    case (Inl err)
    then show ?thesis by simp
  next
    case (Inr ob)
    have step: "map_of (h[i := ob] ! j) k = map_of (h ! j) k"
    proof (cases "j = i \<and> i < length h")
      case True
      with Inr assms show ?thesis by simp
    next
      case False
      then show ?thesis by (cases "j = i") (simp_all add: list_update_beyond)
    qed
    from Inr have "snd (map_mutating f (i # refs) h) = snd (map_mutating f refs (h[i := ob]))"
      by simp
    with Cons.IH [of "h[i := ob]"] step show ?thesis by simp
  qed
qed

text \<open>Over distinct references on which the callback succeeds, the pass is a pointwise map.\<close>

lemma map_mutating_ok:
  assumes "distinct refs"
      and "\<forall>i\<in>set refs. i < length h \<and> f (h ! i) = Inr (g (h ! i))"
  shows "fst (map_mutating f refs h) = None \<and>
         (\<forall>j<length h. snd (map_mutating f refs h) ! j = (if j \<in> set refs then g (h ! j) else h ! j))"
  using assms
proof (induction refs arbitrary: h)
  case Nil
  show ?case by simp
next
  case (Cons i refs)
  let ?h = "h[i := g (h ! i)]"
  from Cons.prems have fi: "f (h ! i) = Inr (g (h ! i))" and il: "i < length h"
    and ni: "i \<notin> set refs" and d: "distinct refs" by auto
  have "\<forall>r\<in>set refs. r < length ?h \<and> f (?h ! r) = Inr (g (?h ! r))"
    using Cons.prems ni by (auto simp: nth_list_update)
  from Cons.IH [OF d this]
  have ih: "fst (map_mutating f refs ?h) = None"
    "\<And>j. j < length h \<Longrightarrow>
       snd (map_mutating f refs ?h) ! j = (if j \<in> set refs then g (?h ! j) else ?h ! j)"
    by auto
  show ?case
  proof (intro conjI allI impI)
    show "fst (map_mutating f (i # refs) h) = None" using fi ih(1) by simp
  next
    fix j assume "j < length h"
    from ih(2) [OF this] fi ni il
    show "snd (map_mutating f (i # refs) h) ! j = (if j \<in> set (i # refs) then g (h ! j) else h ! j)"
      by (auto simp: nth_list_update)
  qed
qed

text \<open>The pass does not throw when the callback succeeds on a class of records that it preserves.\<close>

lemma map_mutating_no_error:
  assumes "\<And>ob. Q ob \<Longrightarrow> \<exists>ob'. f ob = Inr ob' \<and> Q ob'"
      and "\<forall>i\<in>set refs. Q (h ! i)"
  shows "fst (map_mutating f refs h) = None"
  using assms(2)
proof (induction refs arbitrary: h)
  case Nil
  show ?case by simp
next
  case (Cons i refs)
  from Cons.prems have "Q (h ! i)" by simp
  from assms(1) [OF this] obtain ob' where ob': "f (h ! i) = Inr ob'" "Q ob'" by blast
  have "\<forall>r\<in>set refs. Q (h[i := ob'] ! r)"
  proof
    fix r assume r: "r \<in> set refs"
    show "Q (h[i := ob'] ! r)"
    proof (cases "r = i")
      case True
      with ob'(2) Cons.prems show ?thesis
        by (cases "i < length h") (simp_all add: list_update_beyond)
    next
      case False
      with r Cons.prems show ?thesis by simp
    qed
  qed
  from Cons.IH [OF this] ob'(1) show ?case by simp
qed

lemma map_mutating_id:
  "\<forall>i\<in>set refs. f (h ! i) = Inr (h ! i) \<Longrightarrow> map_mutating f refs h = (None, h)"
  by (induction refs) simp_all

lemma filter_err_total:
  assumes "\<forall>i\<in>set refs. p i = Inr (q i)"
  shows "filter_err p refs = Inr (filter q refs)"
  using assms by (induction refs) auto

lemma set_isLive_wf:
  assumes "get_prop ob ''airTimestamp'' = DateTime (Fin t)"
      and "get_prop ob ''durationInSeconds'' = Num (Fin s)"
  shows "set_isLive e ob =
     Inr (if t \<le> now e \<and> now e \<le> t + 1000 * s then set_prop ob ''isLive'' (Bool True) else ob)"
  using assms by (simp add: set_isLive_def js_le_DateTime)

lemma has_ended_wf:
  assumes "get_prop ob ''airTimestamp'' = DateTime (Fin t)"
      and "get_prop ob ''durationInSeconds'' = Num (Fin s)"
  shows "has_ended e ob = Inr (t \<le> now e \<and> t + 1000 * s \<le> now e)"
  using assms by (simp add: has_ended_def js_le_DateTime js_ge_DateTime)

lemma set_isLive_frame:
  "set_isLive e ob = Inr ob' \<Longrightarrow> k \<noteq> ''isLive'' \<Longrightarrow> map_of ob' k = map_of ob k"
  by (auto simp: set_isLive_def map_of_set_prop split: if_splits sum.splits)

lemma set_startsOnTimestamp_frame:
  "set_startsOnTimestamp e ob = Inr ob' \<Longrightarrow> k \<noteq> ''startsOnTimestamp'' \<Longrightarrow> map_of ob' k = map_of ob k"
  by (auto simp: set_startsOnTimestamp_def map_of_set_prop split: if_splits sum.splits)

lemma set_airTimestamp_frame:
  "set_airTimestamp e ob = Inr ob' \<Longrightarrow> k \<noteq> ''airTimestamp'' \<Longrightarrow> map_of ob' k = map_of ob k"
  by (auto simp: set_airTimestamp_def map_of_set_prop split: sum.splits)

lemma set_startsOnTimestamp_succeeds:
  "(\<exists>ob'. set_startsOnTimestamp e ob = Inr ob') \<longleftrightarrow>
     (\<not> truthy (get_prop ob ''startsOn'')
      \<or> (\<exists>t. plus_duration (startOfWeek e) (get_prop ob ''startsOn'') = Inr t))"
  by (auto simp: set_startsOnTimestamp_def split: sum.splits)

lemma set_startsOnTimestamp_again:
  assumes "set_startsOnTimestamp e ob = Inr ob'"
  shows "\<exists>ob''. set_startsOnTimestamp e ob' = Inr ob''"
proof -
  have "get_prop ob' ''startsOn'' = get_prop ob ''startsOn''"
    by (rule get_prop_cong, rule set_startsOnTimestamp_frame [OF assms]) simp
  moreover have "\<exists>x. set_startsOnTimestamp e ob = Inr x" using assms by blast
  ultimately show ?thesis by (simp add: set_startsOnTimestamp_succeeds)
qed

lemma snd_epgUtils:
  "snd (epgUtils ordinal e progs h epgFilters) = snd (map_mutating (set_isLive e) progs h)"
  by (simp add: epgUtils_def split: prod.splits option.splits)

subsection \<open>The stages\<close>


lemma filter_refs_no_filters: "filter_refs h [] refs = refs"
  by (simp add: filter_refs_def matches_def)

lemma fuse_no_query: "\<not> truthy searchString \<Longrightarrow> fuse search h refs searchString = refs"
  by (simp add: fuse_def)

lemma Array_sort_sorted: "sorted_wrt (\<lambda>x y. c x y \<le> 0) xs \<Longrightarrow> Array_sort c xs = xs"
proof (induction xs)
  case Nil
  show ?case by simp
next
  case (Cons x xs)
  then have "Array_sort c xs = xs" by simp
  with Cons.prems show ?case by (cases xs) simp_all
qed

lemma sorted_entries:
  "sorted_wrt (\<lambda>x y. compareMultiple x y \<le> 0)
     (map (\<lambda>(idx, i). ([PlainObject], idx, i)) (enumerate n refs))"
proof (induction refs arbitrary: n)
  case Nil
  show ?case by simp
next
  case (Cons i refs)
  have "compareMultiple ([PlainObject], n, i) ([PlainObject], idx, j) \<le> 0"
    if "(idx, j) \<in> set (enumerate (Suc n) refs)" for idx j
    using that
    by (auto simp: compareMultiple_def compareAscending_def reflexive_def in_set_enumerate_eq)
  with Cons.IH [of "Suc n"] show ?case by auto
qed

text \<open>Sorting by no key leaves the order as it is.\<close>

lemma sortBy_no_keys: "sortBy h [] refs = refs"
proof -
  have "Array_sort compareMultiple (map (\<lambda>(idx, i). ([PlainObject], idx, i)) (enumerate 0 refs))
      = map (\<lambda>(idx, i). ([PlainObject], idx, i)) (enumerate 0 refs)"
    by (rule Array_sort_sorted) (rule sorted_entries)
  then have "sortBy h [] refs = map snd (enumerate 0 refs)"
    by (simp add: sortBy_def criteria_def comp_def case_prod_unfold)
  then show ?thesis by simp
qed


subsection \<open>The reducer of the route\<close>





subsection \<open>Slices\<close>

lemma filter_window: "filter (\<lambda>i. m \<le> i \<and> i < k) [0..<n] = [m..<min n k]"
proof (induction n)
  case 0
  show ?case by simp
next
  case (Suc n)
  show ?case
  proof (cases "m \<le> n \<and> n < k")
    case True
    then have "min (Suc n) k = Suc n" "min n k = n" by simp_all
    with Suc True show ?thesis by simp
  next
    case False
    then have "[m..<min (Suc n) k] = [m..<min n k]"
      by (cases "n < k") (simp_all add: min_def)
    with Suc False show ?thesis by auto
  qed
qed

lemma map_nth_window: "k \<le> length xs \<Longrightarrow> map (\<lambda>i. xs ! i) [m..<k] = drop m (take k xs)"
  by (simp add: list_eq_iff_nth_eq)

lemma slice_take_drop:
  assumes "0 \<le> a"
  shows "slice xs a b = take (nat b - nat a) (drop (nat a) xs)"
proof -
  have "(\<lambda>i. a \<le> int i \<and> int i < b) = (\<lambda>i. nat a \<le> i \<and> i < nat b)"
    using assms by (auto simp: fun_eq_iff)
  then have "slice xs a b = map (\<lambda>i. xs ! i) [nat a..<min (length xs) (nat b)]"
    by (simp add: slice_def filter_window)
  also have "\<dots> = drop (nat a) (take (min (length xs) (nat b)) xs)"
    by (rule map_nth_window) simp
  also have "\<dots> = drop (nat a) (take (nat b) xs)"
    by (simp add: min_def)
  finally show ?thesis by (simp add: drop_take)
qed

lemma page_window:
  assumes "1 \<le> p"
  shows "take (nat (max pp 0)) (drop (nat (max ((p - 1) * pp) 0)) xs) = slice xs ((p - 1) * pp) (p * pp)"
proof (cases "0 \<le> pp")
  case True
  with assms have a: "0 \<le> (p - 1) * pp" by simp
  have "nat (p * pp) - nat ((p - 1) * pp) = nat pp"
    using True assms a by (simp add: nat_diff_distrib' algebra_simps)
  with True a show ?thesis by (simp add: slice_take_drop [OF a] max_def)
next
  case False
  with assms have "p * pp < 0" by (simp add: mult_pos_neg)
  then have "slice xs ((p - 1) * pp) (p * pp) = []"
    by (auto simp: slice_def filter_empty_conv)
  with False show ?thesis by (simp add: max_def)
qed

section \<open>Pagination\<close>

lemma js_gt_of_int: "js_gt (Num (Fin (of_int a))) (Num (Fin (of_int b))) = (b < a)"
  by (simp add: js_gt_def js_compare_def)

lemma js_mul_of_int: "js_mul (Num (Fin (of_int a))) (Num (Fin (of_int b))) = Num (Fin (of_int (a * b)))"
  by (simp add: js_mul_def)

lemma js_sub_of_int: "js_sub (Num (Fin (of_int a))) (Num (Fin (of_int b))) = Num (Fin (of_int (a - b)))"
  by (simp add: js_sub_def num_sub_def)

lemma num_add_of_int: "num_add (Fin (of_int a)) (Fin (of_int b)) = Fin (of_int (a + b))"
  by simp

lemma count_arg_of_int: "count_arg (Num (Fin (of_int k))) = nat (max k 0)"
  by (simp add: count_arg_def toInteger_def)

text \<open>
  With page numbers that are whole numbers (or absent) and a page of at least \<open>1\<close>, the call
  returns the page window: nothing beyond \<open>maxPage\<close>, otherwise the slice from
  \<open>(page - 1) * perPage\<close> to \<open>page * perPage\<close> of the ordered records, and a next page
  iff \<open>page < maxPage\<close> and more than \<open>page * perPage\<close> records exist. The call throws
  only when luxon rejects a stored \<^verbatim>\<open>startsOn\<close>.
\<close>

lemma getMediaItems_pages_of_numbers:
  fixes p pp mp :: int
  assumes page: "page = Undefined \<and> p = 1 \<or> page = Num (Fin (of_int p))"
      and perPage: "perPage = Undefined \<and> pp = 20 \<or> perPage = Num (Fin (of_int pp))"
      and maxPage: "maxPage = Undefined \<and> mp = 100 \<or> maxPage = Num (Fin (of_int mp))"
      and first: "1 \<le> p"
      and refs: "refs = baseQuery search (media d) filters sorts q"
  shows "getMediaItems search e d filters sorts maxPage perPage page q =
     (if p > mp then (Inr \<lparr>nextPage = Undefined, items = []\<rparr>, d)
      else case map_mutating (set_startsOnTimestamp e) refs (media d) of
          (Some err, h') \<Rightarrow> (Inl err, d\<lparr>media := h'\<rparr>)
        | (None, h') \<Rightarrow>
            (Inr \<lparr>nextPage = (if p < mp \<and> int (length refs) > p * pp then Num (Fin (of_int (p + 1))) else Undefined),
                  items = slice (map (\<lambda>i. h' ! i) refs) ((p - 1) * pp) (p * pp)\<rparr>,
             d\<lparr>media := h'\<rparr>))"
proof -
  have cp: "defaultTo page (Num (Fin 1)) = Num (Fin (of_int p))"
    and cpp: "defaultTo perPage (Num (Fin 20)) = Num (Fin (of_int pp))"
    and cmp: "defaultTo maxPage (Num (Fin 100)) = Num (Fin (of_int mp))"
    using page perPage maxPage by (auto simp: defaultTo_def)
  have total: "Num (Fin (of_nat (length refs))) = Num (Fin (of_int (int (length refs))))"
    by simp
  have one: "Num (Fin 1) = Num (Fin (of_int 1))"
    by simp
  have window: "map (\<lambda>i. h' ! i) (take_js (Num (Fin (of_int pp)))
        (drop_js (Num (Fin (of_int ((p - 1) * pp)))) refs))
      = slice (map (\<lambda>i. h' ! i) refs) ((p - 1) * pp) (p * pp)" for h'
    using page_window [OF first, of pp "map (\<lambda>i. h' ! i) refs"]
    by (simp only: take_js_def drop_js_def count_arg_of_int take_map drop_map)
  show ?thesis
    unfolding getMediaItems_def Let_def cp cpp cmp refs [symmetric]
    unfolding total one
    by (simp only: js_gt_of_int js_mul_of_int js_sub_of_int window num_add_of_int ToNumber.simps)
       (simp split: prod.splits option.splits)
qed

text \<open>
  C1. For every ordered record sequence and caller parameters \<open>page\<close>, \<open>perPage\<close> and
  \<open>maxPage\<close>, the result has no items and no next page when \<open>page > maxPage\<close>, and
  otherwise the records from index \<open>(page - 1) * perPage\<close> up to \<open>page * perPage\<close>, with
  a next page iff \<open>page < maxPage\<close> and more than \<open>page * perPage\<close> records exist.

  The route passes the parameters as the strings of the query string, and
  \<^verbatim>\<open>currentPage > currentMaxPage\<close> compares two strings as strings. For page \<open>2\<close> of at
  most \<open>10\<close>, two records a page, over five records, the call answers with no items and
  no next page, as if the page were beyond the last; the same call with numbers returns
  the third and fourth record and the next page \<open>3\<close>.
\<close>

theorem getMediaItems_compares_pages_as_strings:
  "getMediaItems search e five_media [] [] (Str ''10'') (Str ''2'') (Str ''2'') Undefined
     = (Inr \<lparr>nextPage = Undefined, items = []\<rparr>, five_media)
   \<and> fst (getMediaItems search e five_media [] [] (Num (Fin 10)) (Num (Fin 2)) (Num (Fin 2)) Undefined)
     = Inr \<lparr>nextPage = Num (Fin 3), items = [[(''id'', Str ''m2'')], [(''id'', Str ''m3'')]]\<rparr>"
proof
  show "getMediaItems search e five_media [] [] (Str ''10'') (Str ''2'') (Str ''2'') Undefined
     = (Inr \<lparr>nextPage = Undefined, items = []\<rparr>, five_media)"
    by (simp add: getMediaItems_def defaultTo_def js_gt_def js_compare_def Let_def)
  show "fst (getMediaItems search e five_media [] [] (Num (Fin 10)) (Num (Fin 2)) (Num (Fin 2)) Undefined)
     = Inr \<lparr>nextPage = Num (Fin 3), items = [[(''id'', Str ''m2'')], [(''id'', Str ''m3'')]]\<rparr>"
    by (simp add: media_defs js_defs five_media_def)
qed

section \<open>The reference instant\<close>

text \<open>
  C2. Every call of \<^verbatim>\<open>getMediaItems\<close> or \<^verbatim>\<open>getPrograms\<close> captures the reference instant
  \<^verbatim>\<open>now\<close> at that call, so that two calls at different instants classify the programs
  against their own instants.

  \<^verbatim>\<open>now\<close> and \<^verbatim>\<open>startOfWeek\<close> are constants of the module scope, set when the module is
  loaded. A process loaded at the instant \<open>0\<close> still reports, one hour later, the program
  that aired at \<open>0\<close> for one minute as live; classified against the instant of the call
  it is not.
\<close>

theorem getPrograms_classifies_against_the_load_instant:
  "fst (getPrograms_at ordinal 0 3600000 one_program [] [(''now'', Str ''true'')] Undefined)
     = Inr [[(''id'', Str ''p1''), (''airTime'', Duration 259200000), (''durationInSeconds'', Num (Fin 60)),
             (''airTimestamp'', DateTime (Fin 0)), (''isLive'', Bool True)]]
   \<and> fst (getPrograms ordinal (module_scope 3600000) one_program [] [(''now'', Str ''true'')] Undefined)
     = Inr []"
proof
  show "fst (getPrograms_at ordinal 0 3600000 one_program [] [(''now'', Str ''true'')] Undefined)
     = Inr [[(''id'', Str ''p1''), (''airTime'', Duration 259200000), (''durationInSeconds'', Num (Fin 60)),
             (''airTimestamp'', DateTime (Fin 0)), (''isLive'', Bool True)]]"
    by (simp add: epg_defs js_defs one_program_def)
  show "fst (getPrograms ordinal (module_scope 3600000) one_program [] [(''now'', Str ''true'')] Undefined)
     = Inr []"
    by (simp add: epg_defs js_defs one_program_def)
qed

section \<open>The filter stage\<close>



section \<open>Live programs\<close>

text \<open>
  On distinct stored programs that carry an air timestamp and a duration and come without
  a stale \<^verbatim>\<open>isLive\<close>, the annotation marks a program iff \<open>t \<le> now \<le> t + d\<close> (timestamps in
  milliseconds, \<open>d\<close> in seconds), and the mode \<^verbatim>\<open>now\<close> returns the marked programs in input
  order.
\<close>

lemma epgUtils_now_without_stale_flags:
  assumes dist: "distinct progs"
      and wf: "\<forall>i\<in>set progs. i < length h
                 \<and> get_prop (h ! i) ''airTimestamp'' = DateTime (Fin (ts i))
                 \<and> get_prop (h ! i) ''durationInSeconds'' = Num (Fin (ds i))"
      and fresh: "\<forall>i\<in>set progs. truthy (get_prop (h ! i) ''isLive'')
                 \<longrightarrow> ts i \<le> now e \<and> now e \<le> ts i + 1000 * ds i"
      and mode: "truthy (get_prop epgFilters ''now'')"
  shows "\<exists>h'. epgUtils ordinal e progs h epgFilters
              = (Inr (filter (\<lambda>i. ts i \<le> now e \<and> now e \<le> ts i + 1000 * ds i) progs), h')
           \<and> (\<forall>i\<in>set progs. truthy (get_prop (h' ! i) ''isLive'')
                 \<longleftrightarrow> ts i \<le> now e \<and> now e \<le> ts i + 1000 * ds i)"
proof -
  define h' where "h' = snd (map_mutating (set_isLive e) progs h)"
  define g where "g = (\<lambda>ob. case set_isLive e ob of Inl err \<Rightarrow> ob | Inr ob' \<Rightarrow> ob')"
  have fg: "\<forall>i\<in>set progs. i < length h \<and> set_isLive e (h ! i) = Inr (g (h ! i))"
    using wf by (auto simp: g_def set_isLive_wf)
  from map_mutating_ok [OF dist fg]
  have ok: "fst (map_mutating (set_isLive e) progs h) = None"
    and at: "\<And>j. j < length h \<Longrightarrow> h' ! j = (if j \<in> set progs then g (h ! j) else h ! j)"
    by (auto simp: h'_def)
  have live: "truthy (get_prop (h' ! i) ''isLive'')
                 \<longleftrightarrow> ts i \<le> now e \<and> now e \<le> ts i + 1000 * ds i" if "i \<in> set progs" for i
  proof -
    from that wf have "h' ! i = g (h ! i)" by (simp add: at)
    moreover from that wf have "g (h ! i) =
        (if ts i \<le> now e \<and> now e \<le> ts i + 1000 * ds i
         then set_prop (h ! i) ''isLive'' (Bool True) else h ! i)"
      by (simp add: g_def set_isLive_wf)
    ultimately show ?thesis using fresh that by (auto simp: get_set_prop)
  qed
  have "filter (\<lambda>i. truthy (get_prop (h' ! i) ''isLive'')) progs
      = filter (\<lambda>i. ts i \<le> now e \<and> now e \<le> ts i + 1000 * ds i) progs"
    by (rule filter_cong) (simp_all add: live)
  moreover have "map_mutating (set_isLive e) progs h = (None, h')"
    using ok by (simp add: h'_def prod_eq_iff)
  ultimately have "epgUtils ordinal e progs h epgFilters
              = (Inr (filter (\<lambda>i. ts i \<le> now e \<and> now e \<le> ts i + 1000 * ds i) progs), h')"
    using mode by (simp add: epgUtils_def)
  with live show ?thesis by blast
qed


section \<open>The sort stage\<close>

text \<open>
  C5. The sort stage orders the records lexicographically by the sort keys in order, each
  key ascending unless it carries the descending direction marker, and keeps the input
  order of records that tie on all keys.

  \<^verbatim>\<open>sortBy\<close> reads a key such as \<^verbatim>\<open>episodeNumber:desc\<close> as the name of a property. No record
  has it, so all records tie and the input order stays: the episodes \<open>1\<close> and \<open>2\<close> come
  back in that order, where the documented request
  \<^verbatim>\<open>sortBy=episodeNumber:desc\<close> asks for \<open>2\<close> before \<open>1\<close>.
\<close>

theorem sortBy_reads_the_direction_marker_as_a_name:
  "sortBy (media two_episodes) [''episodeNumber:desc''] [0, 1] = [0, 1]
   \<and> fst (getMediaItems search e two_episodes [] [''episodeNumber:desc''] Undefined Undefined Undefined Undefined)
     = Inr \<lparr>nextPage = Undefined,
            items = [[(''id'', Str ''e1''), (''episodeNumber'', Num (Fin 1))],
                     [(''id'', Str ''e2''), (''episodeNumber'', Num (Fin 2))]]\<rparr>"
proof
  show "sortBy (media two_episodes) [''episodeNumber:desc''] [0, 1] = [0, 1]"
    by (simp add: media_defs js_defs two_episodes_def)
  show "fst (getMediaItems search e two_episodes [] [''episodeNumber:desc''] Undefined Undefined Undefined Undefined)
     = Inr \<lparr>nextPage = Undefined,
            items = [[(''id'', Str ''e1''), (''episodeNumber'', Num (Fin 1))],
                     [(''id'', Str ''e2''), (''episodeNumber'', Num (Fin 2))]]\<rparr>"
    by (simp add: media_defs js_defs two_episodes_def)
qed

section \<open>The size of a result\<close>

text \<open>
  C6. The effective \<open>perPage\<close> of \<^verbatim>\<open>getMediaItems\<close> is clamped to a hard maximum of \<open>100\<close>
  whatever the caller supplies, so the items are never more than \<open>100\<close>.

  \<^verbatim>\<open>maxResults = 100\<close> is applied by \<^verbatim>\<open>calculateLimit\<close>, which only \<^verbatim>\<open>getPrograms\<close> calls;
  \<^verbatim>\<open>getMediaItems\<close> hands \<^verbatim>\<open>currentPerPage\<close> to \<^verbatim>\<open>take\<close> as it is. Over \<open>101\<close> records and with
  \<open>perPage = 101\<close>, as a number or as the string of the query string, the call returns all
  \<open>101\<close>.
\<close>

theorem getMediaItems_perPage_not_clamped:
  "fst (getMediaItems (\<lambda>rs s. []) (module_scope 0) many_media [] [] Undefined (Num (Fin 101)) Undefined Undefined)
     = Inr \<lparr>nextPage = Undefined, items = replicate 101 [(''type'', Str ''episode'')]\<rparr>
   \<and> fst (getMediaItems (\<lambda>rs s. []) (module_scope 0) many_media [] [] Undefined (Str ''101'') Undefined Undefined)
     = Inr \<lparr>nextPage = Undefined, items = replicate 101 [(''type'', Str ''episode'')]\<rparr>"
proof -
  let ?h = "replicate 101 [(''type'', Str ''episode'')] :: obj list"
  have refs: "baseQuery (\<lambda>rs s. []) ?h [] [] Undefined = [0..<101]"
    by (simp add: baseQuery_def sortBy_no_keys fuse_no_query filter_refs_no_filters)
  have "\<forall>i\<in>set [0..<101]. set_startsOnTimestamp (module_scope 0) (?h ! i) = Inr (?h ! i)"
    by (simp add: set_startsOnTimestamp_def get_prop_def)
  then have run: "map_mutating (set_startsOnTimestamp (module_scope 0)) [0..<101] ?h = (None, ?h)"
    by (rule map_mutating_id)
  have all: "map (\<lambda>i. ?h ! i) [0..<101] = ?h"
    using map_nth [of ?h] by simp
  have n: "StringToNumber ''101'' = Fin 101"
    by (simp add: js_defs)
  have "fst (getMediaItems (\<lambda>rs s. []) (module_scope 0) many_media [] [] Undefined (Num (Fin 101))
               Undefined Undefined)
     = Inr \<lparr>nextPage = Undefined, items = replicate 101 [(''type'', Str ''episode'')]\<rparr>"
    using all
    by (simp add: getMediaItems_def many_media_def refs run Let_def defaultTo_def js_gt_def
        js_compare_def js_mul_def js_sub_def num_sub_def take_js_def drop_js_def count_arg_def
        toInteger_def)
  moreover
  have "fst (getMediaItems (\<lambda>rs s. []) (module_scope 0) many_media [] [] Undefined (Str ''101'')
               Undefined Undefined)
     = Inr \<lparr>nextPage = Undefined, items = replicate 101 [(''type'', Str ''episode'')]\<rparr>"
    using all
    by (simp add: getMediaItems_def many_media_def refs run Let_def defaultTo_def js_gt_def
        js_compare_def js_mul_def js_sub_def num_sub_def take_js_def drop_js_def count_arg_def
        toInteger_def n)
  ultimately show ?thesis by simp
qed

section \<open>Programs that have just ended\<close>

text \<open>
  C7. Under the mode \<^verbatim>\<open>justEnded\<close> the result is exactly the programs with
  \<open>airTimestamp \<le> now\<close> and \<open>airTimestamp + durationInSeconds \<le> now\<close>, in the reverse of
  the input order; three such programs that end at \<open>T1 < T2 < T3\<close> come out as
  \<open>T3, T2, T1\<close>. (The mode is \<^verbatim>\<open>justEnded\<close> when neither \<^verbatim>\<open>now\<close> nor \<^verbatim>\<open>upNext\<close> is set;
  the programs carry an air timestamp and a duration.)
\<close>

theorem epgUtils_justEnded:
  assumes wf: "\<forall>i\<in>set progs. get_prop (h ! i) ''airTimestamp'' = DateTime (Fin (ts i))
                 \<and> get_prop (h ! i) ''durationInSeconds'' = Num (Fin (ds i))"
      and mode: "\<not> truthy (get_prop epgFilters ''now'')" "\<not> truthy (get_prop epgFilters ''upNext'')"
                "truthy (get_prop epgFilters ''justEnded'')"
  shows "fst (epgUtils ordinal e progs h epgFilters)
           = Inr (rev (filter (\<lambda>i. ts i \<le> now e \<and> ts i + 1000 * ds i \<le> now e) progs))"
proof -
  define h' where "h' = snd (map_mutating (set_isLive e) progs h)"
  let ?Q = "\<lambda>ob. \<exists>t s. get_prop ob ''airTimestamp'' = DateTime (Fin t)
                 \<and> get_prop ob ''durationInSeconds'' = Num (Fin s)"
  have "\<And>ob. ?Q ob \<Longrightarrow> \<exists>ob'. set_isLive e ob = Inr ob' \<and> ?Q ob'"
    by (auto simp: set_isLive_wf get_set_prop)
  moreover have "\<forall>i\<in>set progs. ?Q (h ! i)" using wf by blast
  ultimately have ok: "fst (map_mutating (set_isLive e) progs h) = None"
    by (rule map_mutating_no_error)
  have keep: "get_prop (h' ! i) k = get_prop (h ! i) k" if "k \<noteq> ''isLive''" for i k
    unfolding h'_def using that
    by (intro get_prop_cong map_mutating_frame) (rule set_isLive_frame)
  have "\<forall>i\<in>set progs. has_ended e (h' ! i) = Inr (ts i \<le> now e \<and> ts i + 1000 * ds i \<le> now e)"
    using wf by (auto intro!: has_ended_wf simp: keep)
  then have "filter_err (\<lambda>i. has_ended e (h' ! i)) progs
      = Inr (filter (\<lambda>i. ts i \<le> now e \<and> ts i + 1000 * ds i \<le> now e) progs)"
    by (rule filter_err_total)
  moreover have "map_mutating (set_isLive e) progs h = (None, h')"
    using ok by (simp add: h'_def prod_eq_iff)
  ultimately show ?thesis using mode by (simp add: epgUtils_def)
qed

text \<open>Three programs that ended at \<open>1000\<close>, \<open>2000\<close> and \<open>3000\<close>, seen at \<open>5000\<close>.\<close>

theorem epgUtils_justEnded_witness:
  "fst (epgUtils (\<lambda>t. 0) \<lparr>now = 5000, startOfWeek = 0\<rparr> [0, 1, 2] three_programs
          [(''justEnded'', Str ''true'')])
     = Inr [2, 1, 0]"
proof -
  let ?e = "\<lparr>now = 5000, startOfWeek = 0\<rparr>"
  let ?ts = "\<lambda>i::nat. 1000 * (of_nat i :: rat)"
  let ?ds = "\<lambda>i::nat. 1::rat"
  have wf: "\<forall>i\<in>set [0, 1, 2]. get_prop (three_programs ! i) ''airTimestamp'' = DateTime (Fin (?ts i))
                 \<and> get_prop (three_programs ! i) ''durationInSeconds'' = Num (Fin (?ds i))"
    by (simp add: three_programs_def get_prop_def)
  have mode: "\<not> truthy (get_prop [(''justEnded'', Str ''true'')] ''now'')"
    "\<not> truthy (get_prop [(''justEnded'', Str ''true'')] ''upNext'')"
    "truthy (get_prop [(''justEnded'', Str ''true'')] ''justEnded'')"
    by (simp_all add: get_prop_def)
  have "fst (epgUtils (\<lambda>t. 0) ?e [0, 1, 2] three_programs [(''justEnded'', Str ''true'')])
      = Inr (rev (filter (\<lambda>i. ?ts i \<le> now ?e \<and> ?ts i + 1000 * ?ds i \<le> now ?e) [0, 1, 2]))"
    by (rule epgUtils_justEnded [OF wf mode])
  then show ?thesis by simp
qed

section \<open>Page numbers that are no numbers\<close>

text \<open>
  C8. A call of \<^verbatim>\<open>getMediaItems\<close> with a non-numeric \<open>page\<close> or \<open>perPage\<close> never raises,
  and the value is treated as absent: the result is that of the same call without the
  parameter.

  \<^verbatim>\<open>_.defaultTo\<close> replaces only \<^verbatim>\<open>undefined\<close>, \<^verbatim>\<open>null\<close> and \<^verbatim>\<open>NaN\<close>, and the parameters are
  not converted before it (as \<^verbatim>\<open>calculateLimit\<close> converts its \<open>limit\<close>), so a string such
  as \<^verbatim>\<open>abc\<close> stays. The call does not raise, and over five records: with \<open>page = abc\<close>
  and two records a page it returns the first two records and no next page, where the
  call without \<open>page\<close> has the next page \<open>2\<close>; with \<open>perPage = abc\<close> it returns no items,
  where the call without \<open>perPage\<close> returns the five records.
\<close>

theorem getMediaItems_keeps_non_numeric_pages:
  "fst (getMediaItems search e five_media [] [] Undefined (Num (Fin 2)) (Str ''abc'') Undefined)
     = Inr \<lparr>nextPage = Undefined, items = [[(''id'', Str ''m0'')], [(''id'', Str ''m1'')]]\<rparr>
   \<and> fst (getMediaItems search e five_media [] [] Undefined (Num (Fin 2)) Undefined Undefined)
     = Inr \<lparr>nextPage = Num (Fin 2), items = [[(''id'', Str ''m0'')], [(''id'', Str ''m1'')]]\<rparr>
   \<and> fst (getMediaItems search e five_media [] [] Undefined (Str ''abc'') Undefined Undefined)
     = Inr \<lparr>nextPage = Undefined, items = []\<rparr>
   \<and> fst (getMediaItems search e five_media [] [] Undefined Undefined Undefined Undefined)
     = Inr \<lparr>nextPage = Undefined, items = media five_media\<rparr>"
proof (intro conjI)
  show "fst (getMediaItems search e five_media [] [] Undefined (Num (Fin 2)) (Str ''abc'') Undefined)
     = Inr \<lparr>nextPage = Undefined, items = [[(''id'', Str ''m0'')], [(''id'', Str ''m1'')]]\<rparr>"
    by (simp add: media_defs js_defs five_media_def)
  show "fst (getMediaItems search e five_media [] [] Undefined (Num (Fin 2)) Undefined Undefined)
     = Inr \<lparr>nextPage = Num (Fin 2), items = [[(''id'', Str ''m0'')], [(''id'', Str ''m1'')]]\<rparr>"
    by (simp add: media_defs js_defs five_media_def)
  show "fst (getMediaItems search e five_media [] [] Undefined (Str ''abc'') Undefined Undefined)
     = Inr \<lparr>nextPage = Undefined, items = []\<rparr>"
    by (simp add: media_defs js_defs five_media_def)
  show "fst (getMediaItems search e five_media [] [] Undefined Undefined Undefined Undefined)
     = Inr \<lparr>nextPage = Undefined, items = media five_media\<rparr>"
    by (simp add: media_defs js_defs five_media_def)
qed

section \<open>What a query writes to the store\<close>

text \<open>
  C9, as stated: no query changes a stored record, and \<^verbatim>\<open>isLive\<close> is never kept on a
  stored record. After one call of \<^verbatim>\<open>getPrograms\<close> the stored program carries the
  \<^verbatim>\<open>airTimestamp\<close> and the \<^verbatim>\<open>isLive\<close> that the call assigned.
\<close>

theorem getPrograms_writes_the_store:
  "snd (getPrograms (\<lambda>t. 0) (module_scope 0) one_program [] [(''now'', Str ''true'')] Undefined)
     = \<lparr>media = [],
        programs = [[(''id'', Str ''p1''), (''airTime'', Duration 259200000),
                     (''durationInSeconds'', Num (Fin 60)),
                     (''airTimestamp'', DateTime (Fin 0)), (''isLive'', Bool True)]]\<rparr>
   \<and> snd (getPrograms (\<lambda>t. 0) (module_scope 0) one_program [] [(''now'', Str ''true'')] Undefined)
     \<noteq> one_program"
  by (simp add: epg_defs js_defs one_program_def)

text \<open>
  C9, amended: a query neither adds, removes nor reorders stored records, and leaves every
  stored property as it is but the derived ones that it assigns on the stored record:
  \<^verbatim>\<open>getPrograms\<close> writes \<^verbatim>\<open>airTimestamp\<close> and \<^verbatim>\<open>isLive\<close> on programs and leaves the media
  alone, \<^verbatim>\<open>getMediaItems\<close> writes \<^verbatim>\<open>startsOnTimestamp\<close> on media and leaves the programs
  alone. This holds also for a call that throws.
\<close>

theorem queries_write_derived_fields_only:
  "(let d' = snd (getPrograms ordinal e d filters epgFilters limit)
    in media d' = media d \<and> length (programs d') = length (programs d)
       \<and> (\<forall>j<length (programs d). \<forall>k. k \<noteq> ''airTimestamp'' \<and> k \<noteq> ''isLive''
             \<longrightarrow> map_of (programs d' ! j) k = map_of (programs d ! j) k))
   \<and> (let d' = snd (getMediaItems search e d filters sorts maxPage perPage page q)
      in programs d' = programs d \<and> length (media d') = length (media d)
         \<and> (\<forall>j<length (media d). \<forall>k. k \<noteq> ''startsOnTimestamp''
               \<longrightarrow> map_of (media d' ! j) k = map_of (media d ! j) k))"
proof -
  define refs where "refs = filter_refs (programs d) filters [0..<length (programs d)]"
  define h1 where "h1 = snd (map_mutating (set_airTimestamp e) refs (programs d))"
  define h2 where "h2 = snd (map_mutating (set_isLive e) refs h1)"
  have l1: "length h1 = length (programs d)" and l2: "length h2 = length (programs d)"
    by (simp_all add: h1_def h2_def map_mutating_length)
  have f1: "map_of (h1 ! j) k = map_of (programs d ! j) k" if "k \<noteq> ''airTimestamp''" for j k
    unfolding h1_def using that by (intro map_mutating_frame) (rule set_airTimestamp_frame)
  have f2: "map_of (h2 ! j) k = map_of (h1 ! j) k" if "k \<noteq> ''isLive''" for j k
    unfolding h2_def using that by (intro map_mutating_frame) (rule set_isLive_frame)
  have "snd (getPrograms ordinal e d filters epgFilters limit) = d\<lparr>programs := h1\<rparr>
      \<or> snd (getPrograms ordinal e d filters epgFilters limit) = d\<lparr>programs := h2\<rparr>"
    using snd_epgUtils [of ordinal e refs h1 epgFilters]
    by (auto simp: getPrograms_def Let_def refs_def [symmetric] h1_def h2_def
        split: prod.splits option.splits sum.splits)
  then have A: "let d' = snd (getPrograms ordinal e d filters epgFilters limit)
    in media d' = media d \<and> length (programs d') = length (programs d)
       \<and> (\<forall>j<length (programs d). \<forall>k. k \<noteq> ''airTimestamp'' \<and> k \<noteq> ''isLive''
             \<longrightarrow> map_of (programs d' ! j) k = map_of (programs d ! j) k)"
    using l1 l2 f1 f2 by (auto simp: Let_def)
  define m where "m = snd (map_mutating (set_startsOnTimestamp e)
      (baseQuery search (media d) filters sorts q) (media d))"
  have lm: "length m = length (media d)" by (simp add: m_def map_mutating_length)
  have fm: "map_of (m ! j) k = map_of (media d ! j) k" if "k \<noteq> ''startsOnTimestamp''" for j k
    unfolding m_def using that by (intro map_mutating_frame) (rule set_startsOnTimestamp_frame)
  have "snd (getMediaItems search e d filters sorts maxPage perPage page q) = d
      \<or> snd (getMediaItems search e d filters sorts maxPage perPage page q) = d\<lparr>media := m\<rparr>"
    by (auto simp: getMediaItems_def Let_def m_def split: prod.splits option.splits)
  then have B: "let d' = snd (getMediaItems search e d filters sorts maxPage perPage page q)
      in programs d' = programs d \<and> length (media d') = length (media d)
         \<and> (\<forall>j<length (media d). \<forall>k. k \<noteq> ''startsOnTimestamp''
               \<longrightarrow> map_of (media d' ! j) k = map_of (media d ! j) k)"
    using lm fm by (auto simp: Let_def)
  from A B show ?thesis by blast
qed

text \<open>The duration of the stored program and the \<^verbatim>\<open>startsOn\<close> of the stored series stay.\<close>

theorem queries_write_derived_fields_only_witness:
  "map_of (programs (snd (getPrograms (\<lambda>t. 0) (module_scope 0) one_program []
                            [(''now'', Str ''true'')] Undefined)) ! 0)
       ''durationInSeconds'' = Some (Num (Fin 60))
   \<and> map_of (media (snd (getMediaItems (\<lambda>rs s. []) (module_scope 0) coming_soon [] []
                            Undefined Undefined Undefined Undefined)) ! 0)
       ''startsOn'' = Some (Duration 86400000)"
proof -
  note frame = queries_write_derived_fields_only [where ordinal = "\<lambda>t. 0" and e = "module_scope 0"
      and d = one_program and filters = "[]" and epgFilters = "[(''now'', Str ''true'')]" and limit = Undefined,
      unfolded Let_def]
  from frame [THEN conjunct1]
  have "map_of (programs (snd (getPrograms (\<lambda>t. 0) (module_scope 0) one_program []
                            [(''now'', Str ''true'')] Undefined)) ! 0)
       ''durationInSeconds'' = map_of (programs one_program ! 0) ''durationInSeconds''"
    by (simp add: one_program_def)
  moreover
  note frame' = queries_write_derived_fields_only [where search = "\<lambda>rs s. []" and e = "module_scope 0"
      and d = coming_soon and filters = "[]" and sorts = "[]" and maxPage = Undefined and perPage = Undefined
      and page = Undefined and q = Undefined, unfolded Let_def]
  from frame' [THEN conjunct2]
  have "map_of (media (snd (getMediaItems (\<lambda>rs s. []) (module_scope 0) coming_soon [] []
                            Undefined Undefined Undefined Undefined)) ! 0)
       ''startsOn'' = map_of (media coming_soon ! 0) ''startsOn''"
    by (simp add: coming_soon_def)
  ultimately show ?thesis by (simp add: one_program_def coming_soon_def)
qed

section \<open>The round trip\<close>




end
